theory Spec2Isabelle
  imports Complex_Main "HOL-Library.Product_Lexorder"
begin

section \<open>Python and NumPy values\<close>

text \<open>
  Python integers are \<open>int\<close>. NumPy \<open>float64\<close> values are modelled as \<open>real\<close>: rounding,
  infinities and NaN are outside the model. Every exception the driver can raise is a value
  of \<open>error\<close>; a computation that may raise returns \<open>error + 'a\<close> with \<open>Inl\<close> the exception.
  \<open>HelperError\<close> stands for any exception raised inside one of the helper modules
  (\<open>pytopo3d.utils.*\<close>, \<open>pytopo3d.core.compliance\<close>), for example a failed linear solve.
\<close>

datatype error =
    TypeError string
  | ValueError
  | IndexError
  | AttributeError
  | UnboundLocalError string
  | HelperError string

definition bindE :: "error + 'a \<Rightarrow> ('a \<Rightarrow> error + 'b) \<Rightarrow> error + 'b" where
  "bindE m f = (case m of Inl e \<Rightarrow> Inl e | Inr v \<Rightarrow> f v)"

section \<open>Sparse assembly (optimizer.py, lines 107-114 and 150-158)\<close>

text \<open>
  \<open>pairs = np.vstack(((iK - 1), (jK - 1))).T\<close>: one (row, col) pair per local stiffness
  entry. \<open>np.vstack\<close> raises \<open>ValueError\<close> when the two index arrays differ in length.
\<close>

definition np_vstack_T :: "int list \<Rightarrow> int list \<Rightarrow> error + (int \<times> int) list" where
  "np_vstack_T a b = (if length a = length b then Inr (zip a b) else Inl ValueError)"

definition make_pairs :: "int list \<Rightarrow> int list \<Rightarrow> error + (int \<times> int) list" where
  "make_pairs iK jK = np_vstack_T (map (\<lambda>i. i - 1) iK) (map (\<lambda>j. j - 1) jK)"

text \<open>
  \<open>np.unique(pairs, axis=0, return_inverse=True)\<close>: the distinct rows in lexicographic
  order, and for every input row its position among them.
\<close>

fun index_of :: "'a list \<Rightarrow> 'a \<Rightarrow> nat" where
  "index_of [] y = 0"
| "index_of (x # xs) y = (if x = y then 0 else Suc (index_of xs y))"

definition unique_pairs :: "(int \<times> int) list \<Rightarrow> (int \<times> int) list" where
  "unique_pairs pairs = sort (remdups pairs)"

definition assembly_map :: "(int \<times> int) list \<Rightarrow> nat list" where
  "assembly_map pairs = map (index_of (unique_pairs pairs)) pairs"

definition nUnique :: "(int \<times> int) list \<Rightarrow> nat" where
  "nUnique pairs = length (unique_pairs pairs)"

text \<open>
  \<open>np.kron(stiff_vals, KE.ravel())\<close> for two vectors: every entry of the first times the
  whole second vector, in order.
\<close>

definition np_kron :: "real list \<Rightarrow> real list \<Rightarrow> real list" where
  "np_kron a b = concat (map (\<lambda>s. map (\<lambda>k. s * k) b) a)"

text \<open>
  \<open>np.bincount(idx, weights=w, minlength=n)\<close>: the output has
  \<open>max n (max idx + 1)\<close> slots, initially zero, and \<open>w[k]\<close> is added to slot \<open>idx[k]\<close>
  for \<open>k\<close> in increasing order. It raises \<open>ValueError\<close> when \<open>idx\<close> and \<open>w\<close> differ in
  length.
\<close>

definition bincount_add :: "nat \<times> real \<Rightarrow> real list \<Rightarrow> real list" where
  "bincount_add iv acc = acc[fst iv := acc ! fst iv + snd iv]"

definition np_bincount :: "nat list \<Rightarrow> real list \<Rightarrow> nat \<Rightarrow> error + real list" where
  "np_bincount idx w n =
     (if length idx = length w
      then Inr (fold bincount_add (zip idx w) (replicate (fold max (map Suc idx) n) 0))
      else Inl ValueError)"

text \<open>
  The global matrix: its shape, the coordinates of its stored entries (the sparsity
  pattern, in the row-major order of the CSR format) and one stored value per coordinate.
\<close>

record csr_matrix =
  csr_shape :: "int \<times> int"
  csr_indices :: "(int \<times> int) list"
  csr_data :: "real list"

text \<open>
  \<open>sp.csr_matrix((np.zeros(nUnique), (unique_pairs[:, 0], unique_pairs[:, 1])),
  shape=(ndof, ndof))\<close>. The constructor rejects a coordinate outside the shape with
  \<open>ValueError\<close>. The coordinates are already sorted and distinct, so the conversion to
  CSR stores them in the given order.
\<close>

definition in_shape :: "int \<times> int \<Rightarrow> int \<times> int \<Rightarrow> bool" where
  "in_shape sh p = (0 \<le> fst p \<and> fst p < fst sh \<and> 0 \<le> snd p \<and> snd p < snd sh)"

definition K_template_init :: "(int \<times> int) list \<Rightarrow> int \<Rightarrow> error + csr_matrix" where
  "K_template_init pairs ndof =
     (if list_all (in_shape (ndof, ndof)) (unique_pairs pairs)
      then Inr \<lparr>csr_shape = (ndof, ndof), csr_indices = unique_pairs pairs,
                csr_data = replicate (nUnique pairs) 0\<rparr>
      else Inl ValueError)"

text \<open>
  \<open>K_template.data[:] = K_data\<close>: the stored values are overwritten in place; the
  assignment raises \<open>ValueError\<close> when the lengths differ.
\<close>

definition set_data :: "csr_matrix \<Rightarrow> real list \<Rightarrow> error + csr_matrix" where
  "set_data K d =
     (if length d = length (csr_data K) then Inr (K\<lparr>csr_data := d\<rparr>) else Inl ValueError)"

text \<open>
  Steps 1 and 2 of the loop body: \<open>sK_full = np.kron(stiff_vals, KE.ravel())\<close>,
  \<open>K_data = np.bincount(assembly_map, weights=sK_full, minlength=nUnique)\<close> and the
  in-place store, with the map and the slot count computed once before the loop.
\<close>

definition assemble :: "csr_matrix \<Rightarrow> nat list \<Rightarrow> nat \<Rightarrow> real list \<Rightarrow> real list
    \<Rightarrow> error + csr_matrix" where
  "assemble K amap nU stiff_vals KEflat =
     bindE (np_bincount amap (np_kron stiff_vals KEflat) nU) (\<lambda>K_data. set_data K K_data)"

text \<open>
  The from-scratch build the specification compares with: a coordinate-format matrix made
  from all \<open>576 \<times> nele\<close> triples (row, col, value) and converted to CSR, which sums the
  values of duplicate coordinates and stores the distinct coordinates in sorted order.
\<close>

definition sum_duplicates :: "(int \<times> int) list \<Rightarrow> real list \<Rightarrow> int \<times> int \<Rightarrow> real" where
  "sum_duplicates pairs w p = sum_list (map snd (filter (\<lambda>qv. fst qv = p) (zip pairs w)))"

definition rebuild_from_scratch :: "(int \<times> int) list \<Rightarrow> real list \<Rightarrow> int
    \<Rightarrow> error + csr_matrix" where
  "rebuild_from_scratch pairs w ndof =
     (if length pairs \<noteq> length w \<or> \<not> list_all (in_shape (ndof, ndof)) pairs
      then Inl ValueError
      else Inr \<lparr>csr_shape = (ndof, ndof), csr_indices = sort (remdups pairs),
                csr_data = map (sum_duplicates pairs w) (sort (remdups pairs))\<rparr>)"

section \<open>Dense arrays\<close>

text \<open>
  A three-dimensional NumPy array: its shape and its entries in column-major (Fortran)
  order, the one linear order the driver uses for every per-element array. With this
  representation \<open>a.ravel(order="F")\<close> is \<open>flat a\<close>.
\<close>

record 'a ndarray =
  shape :: "nat \<times> nat \<times> nat"
  flat :: "'a list"

definition wf_array :: "'a ndarray \<Rightarrow> bool" where
  "wf_array a = (length (flat a) = fst (shape a) * fst (snd (shape a)) * snd (snd (shape a)))"

text \<open>\<open>np.full(dims, v)\<close> and \<open>np.zeros(dims, dtype=bool)\<close>: a negative dimension raises
  \<open>ValueError\<close>.\<close>

definition np_full :: "int \<times> int \<times> int \<Rightarrow> 'a \<Rightarrow> error + 'a ndarray" where
  "np_full dims v =
     (case dims of (d0, d1, d2) \<Rightarrow>
        if d0 < 0 \<or> d1 < 0 \<or> d2 < 0 then Inl ValueError
        else Inr \<lparr>shape = (nat d0, nat d1, nat d2),
                  flat = replicate (nat d0 * nat d1 * nat d2) v\<rparr>)"

definition np_zeros_bool :: "int \<times> int \<times> int \<Rightarrow> error + bool ndarray" where
  "np_zeros_bool dims = np_full dims False"

text \<open>\<open>np.zeros(n)\<close> for a vector.\<close>

definition np_zeros :: "int \<Rightarrow> error + real list" where
  "np_zeros n = (if n < 0 then Inl ValueError else Inr (replicate (nat n) 0))"

text \<open>
  \<open>v.reshape(dims, order="F")\<close>: \<open>ValueError\<close> when the sizes differ. NumPy would infer
  a dimension given as \<open>-1\<close>; the driver reshapes only after \<open>np.full\<close> has accepted the
  same dimensions, so a negative one never arrives here and is reported as an error.
\<close>

definition np_reshape_F :: "'a list \<Rightarrow> int \<times> int \<times> int \<Rightarrow> error + 'a ndarray" where
  "np_reshape_F v dims =
     (case dims of (d0, d1, d2) \<Rightarrow>
        if d0 < 0 \<or> d1 < 0 \<or> d2 < 0 then Inl ValueError
        else if length v = nat d0 * nat d1 * nat d2
        then Inr \<lparr>shape = (nat d0, nat d1, nat d2), flat = v\<rparr>
        else Inl ValueError)"

text \<open>\<open>a[mask] = v\<close> with a boolean mask: \<open>IndexError\<close> unless the mask has the shape of
  the array.\<close>

definition set_masked :: "'a ndarray \<Rightarrow> bool ndarray \<Rightarrow> 'a \<Rightarrow> error + 'a ndarray" where
  "set_masked a m v =
     (if shape m = shape a
      then Inr (a\<lparr>flat := map2 (\<lambda>b y. if b then v else y) (flat m) (flat a)\<rparr>)
      else Inl IndexError)"

text \<open>\<open>a[~mask]\<close>: the entries outside the mask, as a vector.\<close>

definition select_unmasked :: "'a ndarray \<Rightarrow> bool ndarray \<Rightarrow> error + 'a list" where
  "select_unmasked a m =
     (if shape m = shape a
      then Inr (map snd (filter (\<lambda>bv. \<not> fst bv) (zip (flat m) (flat a))))
      else Inl IndexError)"

definition np_count_nonzero :: "bool ndarray \<Rightarrow> int" where
  "np_count_nonzero m = int (length (filter (\<lambda>b. b) (flat m)))"

text \<open>\<open>v.mean()\<close>; of an empty vector NumPy gives NaN with a warning, which the model
  cannot represent (it gives 0).\<close>

definition np_mean :: "real list \<Rightarrow> real" where
  "np_mean v = sum_list v / real (length v)"

text \<open>Element-wise combination of two arrays of one shape.\<close>

definition arr_map2 :: "('a \<Rightarrow> 'b \<Rightarrow> 'c) \<Rightarrow> 'a ndarray \<Rightarrow> 'b ndarray \<Rightarrow> error + 'c ndarray" where
  "arr_map2 f a b =
     (if shape a = shape b
      then Inr \<lparr>shape = shape a, flat = map2 f (flat a) (flat b)\<rparr>
      else Inl ValueError)"

text \<open>
  \<open>x ** p\<close> on floats. The model agrees with NumPy for \<open>x > 0\<close>, and for \<open>x = 0\<close> with
  \<open>p \<ge> 0\<close> (\<open>0 ** 0 = 1\<close>); a negative base or a zero base with a negative exponent gives
  NaN or infinity in NumPy.
\<close>

definition np_power :: "real \<Rightarrow> real \<Rightarrow> real" where
  "np_power x p = (if p = 0 then 1 else if x = 0 then 0 else x powr p)"

text \<open>\<open>u / w\<close> on vectors, with NumPy's broadcasting of a one-element operand.\<close>

definition np_divide :: "real list \<Rightarrow> real list \<Rightarrow> error + real list" where
  "np_divide u w =
     (if length u = length w then Inr (map2 (\<lambda>a b. a / b) u w)
      else if length w = 1 then Inr (map (\<lambda>a. a / hd w) u)
      else if length u = 1 then Inr (map (\<lambda>b. hd u / b) w)
      else Inl ValueError)"

text \<open>\<open>F[idx]\<close> and \<open>U[idx] = vals\<close> with an index array.\<close>

definition np_take :: "real list \<Rightarrow> nat list \<Rightarrow> error + real list" where
  "np_take v idx =
     (if list_all (\<lambda>i. i < length v) idx then Inr (map (\<lambda>i. v ! i) idx) else Inl IndexError)"

definition np_put :: "real list \<Rightarrow> nat list \<Rightarrow> real list \<Rightarrow> error + real list" where
  "np_put v idx vals =
     (if \<not> list_all (\<lambda>i. i < length v) idx then Inl IndexError
      else if length vals = length idx
      then Inr (fold (\<lambda>iv u. u[fst iv := snd iv]) (zip idx vals) v)
      else if length vals = 1
      then Inr (fold (\<lambda>i u. u[i := hd vals]) idx v)
      else Inl ValueError)"

section \<open>The density filter (optimizer.py, lines 129, 180, 181, 196)\<close>

text \<open>
  The filter matrix \<open>H\<close> is a SciPy sparse matrix; the model keeps its rows with the
  zeros written out. \<open>H * v\<close> is the matrix-vector product and raises \<open>ValueError\<close> on a
  dimension mismatch.
\<close>

definition sp_matvec :: "real list list \<Rightarrow> real list \<Rightarrow> error + real list" where
  "sp_matvec H v =
     (if list_all (\<lambda>r. length r = length v) H
      then Inr (map (\<lambda>r. sum_list (map2 (\<lambda>h y. h * y) r v)) H)
      else Inl ValueError)"

text \<open>Lines 129 and 196:
  \<open>(H * x.ravel(order="F") / Hs).reshape((nely, nelx, nelz), order="F")\<close>.\<close>

definition filter_density :: "real list list \<Rightarrow> real list \<Rightarrow> real ndarray \<Rightarrow> int \<times> int \<times> int
    \<Rightarrow> error + real ndarray" where
  "filter_density H Hs x dims =
     bindE (sp_matvec H (flat x)) (\<lambda>Hx.
     bindE (np_divide Hx Hs) (\<lambda>q.
     np_reshape_F q dims))"

text \<open>Lines 180 and 181:
  \<open>(H * (dc.ravel(order="F") / Hs)).reshape((nely, nelx, nelz), order="F")\<close>.\<close>

definition filter_sensitivity :: "real list list \<Rightarrow> real list \<Rightarrow> real ndarray \<Rightarrow> int \<times> int \<times> int
    \<Rightarrow> error + real ndarray" where
  "filter_sensitivity H Hs d dims =
     bindE (np_divide (flat d) Hs) (\<lambda>q.
     bindE (sp_matvec H q) (\<lambda>Hq.
     np_reshape_F Hq dims))"

section \<open>The optimization driver \<open>top3d\<close> (optimizer.py)\<close>

text \<open>
  The helper functions that \<open>top3d\<close> imports from \<open>pytopo3d.utils\<close> and
  \<open>pytopo3d.core.compliance\<close> are parameters of the model, each a function of its
  arguments that returns a value or raises. Index arrays returned by \<open>build_supports\<close>
  and \<open>build_edof\<close> hold zero-based positions (\<open>nat\<close>); \<open>iK\<close> and \<open>jK\<close> are the
  one-based global numbers that the driver shifts by one.
\<close>

record env =
  build_force_vector :: "int \<Rightarrow> int \<Rightarrow> int \<Rightarrow> int \<Rightarrow> error + real list"
  build_supports :: "int \<Rightarrow> int \<Rightarrow> int \<Rightarrow> int \<Rightarrow> error + (nat list \<times> nat list)"
  lk_H8 :: "real \<Rightarrow> error + real list list"
  build_edof :: "int \<Rightarrow> int \<Rightarrow> int \<Rightarrow> error + (nat list list \<times> int list \<times> int list)"
  build_filter :: "int \<Rightarrow> int \<Rightarrow> int \<Rightarrow> real \<Rightarrow> error + (real list list \<times> real list)"
  solver :: "real list list \<Rightarrow> real list \<Rightarrow> error + real list"
  element_compliance :: "real list \<Rightarrow> nat list list \<Rightarrow> real list list \<Rightarrow> error + real list"
  optimality_criteria_update ::
    "real ndarray \<Rightarrow> real ndarray \<Rightarrow> real ndarray \<Rightarrow> real \<Rightarrow> real list list \<Rightarrow> real list
      \<Rightarrow> int \<Rightarrow> bool ndarray \<Rightarrow> int \<Rightarrow> error + (real ndarray \<times> real)"

text \<open>The arguments of \<open>top3d\<close>; \<open>obstacle_mask\<close> is \<open>None\<close> by default.\<close>

record args =
  nelx :: int
  nely :: int
  nelz :: int
  volfrac :: real
  penal :: real
  rmin :: real
  disp_thres :: real
  obstacle_mask :: "bool ndarray option"
  tolx :: real
  maxloop :: int

text \<open>
  What a run does besides computing: the calls to helper functions, in order, and the
  two final log records. The progress bar, the per-iteration debug records and the wall
  clock are not modelled; \<open>displayflag\<close> is the constant \<open>False\<close>, so nothing is drawn.
\<close>

datatype event =
    Call_build_force_vector
  | Call_build_supports
  | Call_lk_H8
  | Call_build_edof
  | Call_build_filter
  | Call_solver
  | Call_element_compliance
  | Call_optimality_criteria_update
  | Log_warning_max_iterations int
  | Log_info_converged int

type_synonym 'a run = "event list \<Rightarrow> event list \<times> (error + 'a)"

definition bindM :: "'a run \<Rightarrow> ('a \<Rightarrow> 'b run) \<Rightarrow> 'b run" where
  "bindM m f tr = (case m tr of (tr', Inl e) \<Rightarrow> (tr', Inl e) | (tr', Inr v) \<Rightarrow> f v tr')"

definition liftE :: "error + 'a \<Rightarrow> 'a run" where
  "liftE r tr = (tr, r)"

definition call :: "event \<Rightarrow> error + 'a \<Rightarrow> 'a run" where
  "call ev r tr = (tr @ [ev], r)"

definition emit :: "event \<Rightarrow> unit run" where
  "emit ev tr = (tr @ [ev], Inr ())"

text \<open>
  The local variables of \<open>top3d\<close> that live across iterations. \<open>c\<close> and
  \<open>current_volume_fraction\<close> are assigned only inside the loop body: \<open>None\<close> is the
  unbound variable. \<open>c_prev\<close>, \<open>c_delta\<close> and \<open>iter_time\<close> feed log records only and
  are left out.
\<close>

record locals =
  var_nele :: int
  var_ndof :: int
  var_obstacle_mask :: "bool ndarray"
  var_design_nele :: int
  var_F :: "real list"
  var_freedofs0 :: "nat list"
  var_fixeddof0 :: "nat list"
  var_U :: "real list"
  var_KE :: "real list list"
  var_edofMat :: "nat list list"
  var_assembly_map :: "nat list"
  var_nUnique :: nat
  var_K_template :: csr_matrix
  var_H :: "real list list"
  var_Hs :: "real list"
  var_x :: "real ndarray"
  var_xPhys :: "real ndarray"
  var_change :: real
  var_c :: "real option"
  var_current_volume_fraction :: "real option"

definition E0 :: real where "E0 = 1"
definition Emin :: real where "Emin = 1 / 10 ^ 9"
definition nu :: real where "nu = 3 / 10"

definition dims :: "args \<Rightarrow> int \<times> int \<times> int" where
  "dims a = (nely a, nelx a, nelz a)"

text \<open>
  Lines 79-89. \<open>np.count_nonzero\<close> gives the count as a NumPy integer, so \<open>design_nele\<close>
  is one too and the quotient \<open>design_nele / nele\<close> in the f-string of the debug record
  is NumPy's: for an empty grid it is \<open>nan\<close> with a warning, and nothing is raised.
  This is NumPy 2.3 and later; where the count is a Python \<open>int\<close>, as older versions
  give it, the quotient of an empty grid raises \<open>ZeroDivisionError\<close>, which is outside
  the model. The only exception of these lines is the \<open>ValueError\<close> of \<open>np.zeros\<close>
  for a negative dimension when no mask is given.
\<close>

definition top3d_prelude :: "args \<Rightarrow> error + (int \<times> int \<times> bool ndarray \<times> int)" where
  "top3d_prelude a =
     (let nele = nelx a * nely a * nelz a;
          ndof = 3 * (nelx a + 1) * (nely a + 1) * (nelz a + 1)
      in bindE (case obstacle_mask a of None \<Rightarrow> np_zeros_bool (dims a) | Some m \<Rightarrow> Inr m)
           (\<lambda>omask.
              let design_nele = nele - np_count_nonzero omask
              in Inr (nele, ndof, omask, design_nele)))"

text \<open>Lines 91-134: the setup work, from the force vector to the first physical density.\<close>

definition top3d_setup :: "env \<Rightarrow> args \<Rightarrow> int \<times> int \<times> bool ndarray \<times> int \<Rightarrow> locals run" where
  "top3d_setup env a p =
     (case p of (nele, ndof, omask, design_nele) \<Rightarrow>
      bindM (call Call_build_force_vector
               (build_force_vector env (nelx a) (nely a) (nelz a) ndof)) (\<lambda>F.
      bindM (call Call_build_supports
               (build_supports env (nelx a) (nely a) (nelz a) ndof)) (\<lambda>supports.
      bindM (liftE (np_zeros ndof)) (\<lambda>U.
      bindM (call Call_lk_H8 (lk_H8 env nu)) (\<lambda>KE.
      bindM (call Call_build_edof (build_edof env (nelx a) (nely a) (nelz a))) (\<lambda>edof.
      bindM (liftE (make_pairs (fst (snd edof)) (snd (snd edof)))) (\<lambda>pairs.
      bindM (liftE (K_template_init pairs ndof)) (\<lambda>K_template.
      bindM (call Call_build_filter
               (build_filter env (nelx a) (nely a) (nelz a) (rmin a))) (\<lambda>HHs.
      bindM (liftE (np_full (dims a) (volfrac a))) (\<lambda>x0.
      bindM (liftE (set_masked x0 omask 0)) (\<lambda>x.
      bindM (liftE (filter_density (fst HHs) (snd HHs) x (dims a))) (\<lambda>xPhys.
      liftE (Inr
        \<lparr>var_nele = nele, var_ndof = ndof, var_obstacle_mask = omask,
         var_design_nele = design_nele, var_F = F, var_freedofs0 = fst supports,
         var_fixeddof0 = snd supports, var_U = U, var_KE = KE, var_edofMat = fst edof,
         var_assembly_map = assembly_map pairs, var_nUnique = nUnique pairs,
         var_K_template = K_template, var_H = fst HHs, var_Hs = snd HHs,
         var_x = x, var_xPhys = xPhys, var_change = 1,
         var_c = None, var_current_volume_fraction = None\<rparr>)))))))))))))"

text \<open>Value of the matrix at a coordinate, and
  \<open>K_template[freedofs0, :][:, freedofs0]\<close> (rows with their zeros written out).\<close>

definition csr_get :: "csr_matrix \<Rightarrow> int \<times> int \<Rightarrow> real" where
  "csr_get K p = (case map_of (zip (csr_indices K) (csr_data K)) p of None \<Rightarrow> 0 | Some v \<Rightarrow> v)"

definition csr_select :: "csr_matrix \<Rightarrow> nat list \<Rightarrow> error + real list list" where
  "csr_select K idx =
     (if list_all (\<lambda>i. int i < fst (csr_shape K) \<and> int i < snd (csr_shape K)) idx
      then Inr (map (\<lambda>r. map (\<lambda>c. csr_get K (int r, int c)) idx) idx)
      else Inl IndexError)"

text \<open>Lines 150-158: stiffness values of the elements, scattered into the global matrix.\<close>

definition stiff_vals :: "args \<Rightarrow> real ndarray \<Rightarrow> real list" where
  "stiff_vals a xPhys = map (\<lambda>y. Emin + np_power y (penal a) * (E0 - Emin)) (flat xPhys)"

definition assemble_step :: "args \<Rightarrow> locals \<Rightarrow> locals run" where
  "assemble_step a v =
     bindM (liftE (assemble (var_K_template v) (var_assembly_map v) (var_nUnique v)
                     (stiff_vals a (var_xPhys v)) (concat (var_KE v)))) (\<lambda>K.
     liftE (Inr (v\<lparr>var_K_template := K\<rparr>)))"

text \<open>Lines 160-165: the reduced system, its solution, and the displacement vector.\<close>

definition solve_step :: "env \<Rightarrow> locals \<Rightarrow> locals run" where
  "solve_step env v =
     bindM (liftE (csr_select (var_K_template v) (var_freedofs0 v))) (\<lambda>K_ff.
     bindM (liftE (np_take (var_F v) (var_freedofs0 v))) (\<lambda>F_f.
     bindM (call Call_solver (solver env K_ff F_f)) (\<lambda>U_f.
     bindM (liftE (np_put (replicate (length (var_U v)) 0) (var_freedofs0 v) U_f)) (\<lambda>U.
     liftE (Inr (v\<lparr>var_U := U\<rparr>))))))"

text \<open>Lines 167-185: compliance, the two sensitivities, their filtering and masking.\<close>

definition sensitivity_step :: "env \<Rightarrow> args \<Rightarrow> locals
    \<Rightarrow> (locals \<times> real ndarray \<times> real ndarray) run" where
  "sensitivity_step env a v =
     bindM (call Call_element_compliance
              (element_compliance env (var_U v) (var_edofMat v) (var_KE v))) (\<lambda>ce_flat.
     bindM (liftE (np_reshape_F ce_flat (dims a))) (\<lambda>ce.
     bindM (liftE (arr_map2 (\<lambda>y e. (Emin + np_power y (penal a) * (E0 - Emin)) * e)
                     (var_xPhys v) ce)) (\<lambda>cs.
     bindM (liftE (arr_map2 (\<lambda>y e. - penal a * (E0 - Emin) * np_power y (penal a - 1) * e)
                     (var_xPhys v) ce)) (\<lambda>dc0.
     bindM (liftE (filter_sensitivity (var_H v) (var_Hs v) dc0 (dims a))) (\<lambda>dc1.
     bindM (liftE (filter_sensitivity (var_H v) (var_Hs v)
                     \<lparr>shape = shape (var_xPhys v),
                      flat = replicate (length (flat (var_xPhys v))) 1\<rparr> (dims a))) (\<lambda>dv1.
     bindM (liftE (set_masked dc1 (var_obstacle_mask v) 0)) (\<lambda>dc.
     bindM (liftE (set_masked dv1 (var_obstacle_mask v) 0)) (\<lambda>dv.
     liftE (Inr (v\<lparr>var_c := Some (sum_list (flat cs))\<rparr>, dc, dv))))))))))"

text \<open>Lines 187-204: the update of the design, the new physical density and its mean.\<close>

definition update_step :: "env \<Rightarrow> args \<Rightarrow> locals \<Rightarrow> real ndarray \<Rightarrow> real ndarray
    \<Rightarrow> locals run" where
  "update_step env a v dc dv =
     bindM (call Call_optimality_criteria_update
              (optimality_criteria_update env (var_x v) dc dv (volfrac a) (var_H v) (var_Hs v)
                 (var_nele v) (var_obstacle_mask v) (var_design_nele v))) (\<lambda>oc.
     bindM (liftE (set_masked (fst oc) (var_obstacle_mask v) 0)) (\<lambda>xnew.
     bindM (liftE (filter_density (var_H v) (var_Hs v) xnew (dims a))) (\<lambda>xPhys0.
     bindM (liftE (set_masked xPhys0 (var_obstacle_mask v) 0)) (\<lambda>xPhys.
     bindM (liftE (select_unmasked xPhys (var_obstacle_mask v))) (\<lambda>design.
     liftE (Inr (v\<lparr>var_x := xnew, var_xPhys := xPhys, var_change := snd oc,
                   var_current_volume_fraction := Some (np_mean design)\<rparr>)))))))"

text \<open>One pass through the loop body, after \<open>loop += 1\<close>.\<close>

definition top3d_iter :: "env \<Rightarrow> args \<Rightarrow> locals \<Rightarrow> locals run" where
  "top3d_iter env a v =
     bindM (assemble_step a v) (\<lambda>v1.
     bindM (solve_step env v1) (\<lambda>v2.
     bindM (sensitivity_step env a v2) (\<lambda>r.
     update_step env a (fst r) (fst (snd r)) (snd (snd r)))))"

text \<open>
  Line 146: \<open>while change > tolx and loop < maxloop\<close>. The counter \<open>loop\<close> is the one
  local the body only increments, so it is carried beside the other locals.
\<close>

function top3d_while :: "env \<Rightarrow> args \<Rightarrow> int \<Rightarrow> locals \<Rightarrow> (int \<times> locals) run" where
  "top3d_while env a loop v tr =
     (if var_change v > tolx a \<and> loop < maxloop a
      then (case top3d_iter env a v tr of
              (tr', Inl e) \<Rightarrow> (tr', Inl e)
            | (tr', Inr v') \<Rightarrow> top3d_while env a (loop + 1) v' tr')
      else (tr, Inr (loop, v)))"
  by pat_completeness auto
termination
  by (relation "measure (\<lambda>(env, a, loop, v, tr). nat (maxloop a - loop))") auto

text \<open>
  Lines 230-243: the final log records and the return. Formatting \<open>c\<close> or
  \<open>current_volume_fraction\<close> while it is unbound raises \<open>UnboundLocalError\<close>.
\<close>

definition top3d_finish :: "args \<Rightarrow> int \<times> locals \<Rightarrow> real ndarray run" where
  "top3d_finish a lv =
     (case lv of (loop, v) \<Rightarrow>
      bindM (emit (if loop \<ge> maxloop a then Log_warning_max_iterations (maxloop a)
                   else Log_info_converged loop)) (\<lambda>_.
      case var_c v of
        None \<Rightarrow> liftE (Inl (UnboundLocalError ''c''))
      | Some c \<Rightarrow>
          (case var_current_volume_fraction v of
             None \<Rightarrow> liftE (Inl (UnboundLocalError ''current_volume_fraction''))
           | Some cvf \<Rightarrow> liftE (Inr (var_xPhys v)))))"

definition top3d_loop :: "env \<Rightarrow> args \<Rightarrow> (int \<times> locals) run" where
  "top3d_loop env a =
     bindM (liftE (top3d_prelude a)) (\<lambda>p.
     bindM (top3d_setup env a p) (\<lambda>v.
     top3d_while env a 0 v))"

definition top3d :: "env \<Rightarrow> args \<Rightarrow> event list \<times> (error + real ndarray)" where
  "top3d env a = bindM (top3d_loop env a) (top3d_finish a) []"

text \<open>The value of \<open>loop\<close> when the loop is left: the number of passes through its body.\<close>

definition iterations :: "env \<Rightarrow> args \<Rightarrow> int option" where
  "iterations env a =
     (case snd (top3d_loop env a []) of Inl e \<Rightarrow> None | Inr lv \<Rightarrow> Some (fst lv))"

section \<open>The caller \<open>execute_optimization\<close> (experiment.py, lines 96-229)\<close>

text \<open>
  Python binds the arguments of a call to the parameters of a function that takes neither
  \<open>*args\<close> nor \<open>**kwargs\<close>: the positional arguments fill the first parameters, then
  each keyword must name a parameter not yet filled, and every parameter without a
  default must end up filled. Each failure is a \<open>TypeError\<close>.
\<close>

definition bind_arguments :: "string list \<Rightarrow> nat \<Rightarrow> nat \<Rightarrow> string list \<Rightarrow> error + unit" where
  "bind_arguments params required npos kws =
     (case find (\<lambda>k. k \<notin> set params \<or> k \<in> set (take npos params)) kws of
        Some k \<Rightarrow>
          if k \<notin> set params then Inl (TypeError (''unexpected keyword argument '' @ k))
          else Inl (TypeError (''multiple values for argument '' @ k))
      | None \<Rightarrow>
          if length params < npos then Inl (TypeError ''too many positional arguments'')
          else if list_all (\<lambda>q. q \<in> set kws) (drop npos (take required params))
          then Inr ()
          else Inl (TypeError ''missing required positional argument''))"

text \<open>The signature of \<open>top3d\<close> (optimizer.py, lines 27-38): ten parameters, the last
  three with defaults.\<close>

definition top3d_parameters :: "string list" where
  "top3d_parameters =
     [''nelx'', ''nely'', ''nelz'', ''volfrac'', ''penal'', ''rmin'', ''disp_thres'',
      ''obstacle_mask'', ''tolx'', ''maxloop'']"

definition top3d_required :: nat where
  "top3d_required = 7"

text \<open>A call of \<open>top3d\<close> with \<open>npos\<close> positional arguments and the keywords \<open>kws\<close>.\<close>

definition call_top3d :: "env \<Rightarrow> args \<Rightarrow> nat \<Rightarrow> string list \<Rightarrow> real ndarray run" where
  "call_top3d env a npos kws tr =
     (case bind_arguments top3d_parameters top3d_required npos kws of
        Inl e \<Rightarrow> (tr, Inl e)
      | Inr u \<Rightarrow> (case top3d env a of (tr', r) \<Rightarrow> (tr @ tr', r)))"

text \<open>
  The arguments of \<open>execute_optimization\<close>: the ten values it passes on to \<open>top3d\<close>
  (\<open>combined_obstacle_mask\<close> as \<open>obstacle_mask\<close>), the animation switch and frequency,
  whether a logger was given (\<open>logger\<close> is \<open>None\<close> by default), and the benchmark switch.
\<close>

record exec_args =
  passed_on :: args
  create_animation :: bool
  animation_frequency :: int
  has_logger :: bool
  benchmark :: bool

type_synonym history = "real ndarray list"

text \<open>
  Lines 151-190. \<open>logger.debug\<close> at line 158 is not guarded by \<open>if logger\<close>, so a
  missing logger raises \<open>AttributeError\<close>. The call at lines 164-178 passes seven
  positional arguments and six keywords. With \<open>create_animation\<close> the result is
  unpacked into two names, which for an array succeeds only when its first dimension
  is 2; \<open>history['density_history']\<close> on the array that results raises \<open>IndexError\<close>.
  The benchmark tracker is only passed on as a keyword value; the run time and the
  benchmark summary of the returned tuple are left out.
\<close>

definition execute_optimization :: "env \<Rightarrow> exec_args
    \<Rightarrow> event list \<times> (error + real ndarray \<times> history option)" where
  "execute_optimization env ea =
     (if \<not> has_logger ea then ([], Inl AttributeError)
      else bindM (call_top3d env (passed_on ea) 7
                    [''obstacle_mask'', ''tolx'', ''maxloop'', ''save_history'',
                     ''history_frequency'', ''benchmark_tracker''])
             (\<lambda>optimization_result.
                if create_animation ea
                then (if fst (shape optimization_result) = 2 then liftE (Inl IndexError)
                      else liftE (Inl ValueError))
                else liftE (Inr (optimization_result, None))) [])"

section \<open>Predicates on runs\<close>



text \<open>
  Every local except the stored matrix values, the displacement vector, the two density
  fields and the scalars \<open>change\<close>, \<open>c\<close> and \<open>current_volume_fraction\<close> is the same in
  \<open>v\<close> and \<open>v'\<close>: the partition of the degrees of freedom, the filter, the force vector,
  the element table, the assembly map with its slot count, the shape and the sparsity
  pattern of the global matrix, the sizes, the mask and the local stiffness matrix.
\<close>

definition unchanged_by_iteration :: "locals \<Rightarrow> locals \<Rightarrow> bool" where
  "unchanged_by_iteration v v' =
     (var_freedofs0 v' = var_freedofs0 v \<and> var_fixeddof0 v' = var_fixeddof0 v
      \<and> var_H v' = var_H v \<and> var_Hs v' = var_Hs v \<and> var_F v' = var_F v
      \<and> var_edofMat v' = var_edofMat v
      \<and> var_assembly_map v' = var_assembly_map v \<and> var_nUnique v' = var_nUnique v
      \<and> csr_shape (var_K_template v') = csr_shape (var_K_template v)
      \<and> csr_indices (var_K_template v') = csr_indices (var_K_template v)
      \<and> var_nele v' = var_nele v \<and> var_ndof v' = var_ndof v
      \<and> var_obstacle_mask v' = var_obstacle_mask v
      \<and> var_design_nele v' = var_design_nele v \<and> var_KE v' = var_KE v)"

text \<open>The array \<open>y\<close> has the shape of the mask and is 0 wherever the mask is true.\<close>

definition zero_on_mask :: "bool ndarray \<Rightarrow> real ndarray \<Rightarrow> bool" where
  "zero_on_mask m y =
     (shape y = shape m \<and> length (flat y) = length (flat m)
      \<and> (\<forall>i<length (flat m). flat m ! i \<longrightarrow> flat y ! i = 0))"

section \<open>Inputs and helper contracts\<close>

text \<open>The valid inputs of section 6 of the specification.\<close>

definition valid_input :: "args \<Rightarrow> bool" where
  "valid_input a =
     (0 < nelx a \<and> 0 < nely a \<and> 0 < nelz a \<and> 0 < volfrac a \<and> volfrac a < 1
      \<and> 1 \<le> penal a \<and> 0 < rmin a \<and> 0 < tolx a \<and> 1 \<le> maxloop a
      \<and> (case obstacle_mask a of
            None \<Rightarrow> True
          | Some m \<Rightarrow> shape m = (nat (nely a), nat (nelx a), nat (nelz a)) \<and> wf_array m))"

definition in_unit :: "real \<Rightarrow> bool" where
  "in_unit y = (0 \<le> y \<and> y \<le> 1)"

text \<open>
  Modelled from the spec: \<open>build_filter\<close> (pytopo3d/utils/filter.py is not among the
  sources). Section 4.4: entry \<open>(i, j)\<close> of \<open>H\<close> is \<open>max(0, rmin - dist(i, j))\<close> and \<open>Hs\<close>
  is the vector of row sums; an element is at distance 0 from itself, so for \<open>rmin > 0\<close>
  every row sum is positive.
\<close>

definition filter_weights_ok :: "real list list \<Rightarrow> real list \<Rightarrow> bool" where
  "filter_weights_ok H Hs =
     (list_all (\<lambda>r. list_all (\<lambda>h. 0 \<le> h) r) H \<and> Hs = map sum_list H
      \<and> list_all (\<lambda>s. 0 < s) Hs)"

definition build_filter_ok :: "env \<Rightarrow> bool" where
  "build_filter_ok env =
     (\<forall>nx ny nz r H Hs. 0 < r \<longrightarrow> build_filter env nx ny nz r = Inr (H, Hs)
        \<longrightarrow> filter_weights_ok H Hs)"

text \<open>
  Modelled from the spec: \<open>optimality_criteria_update\<close> (pytopo3d/utils/oc_update.py is
  not among the sources). Section 4.7: the new density is the proposal clipped element-wise
  to \<open>lower = max(0, x - step)\<close> and \<open>upper = min(1, x + step)\<close>; for a current density
  within \<open>[0, 1]\<close> the result is within \<open>[0, 1]\<close>.
\<close>

definition oc_update_ok :: "env \<Rightarrow> bool" where
  "oc_update_ok env =
     (\<forall>x dc dv vf H Hs n m dn xnew ch.
        list_all in_unit (flat x)
        \<longrightarrow> optimality_criteria_update env x dc dv vf H Hs n m dn = Inr (xnew, ch)
        \<longrightarrow> list_all in_unit (flat xnew))"

text \<open>
  What holds of the locals between two passes through the loop body: the filter weights
  are as specified, the mask is well formed, the design \<open>x\<close> is within \<open>[0, 1]\<close>, and once
  \<open>c\<close> is bound (a pass has been made) the physical density is within \<open>[0, 1]\<close> and zero
  on the mask.
\<close>

definition density_inv :: "locals \<Rightarrow> bool" where
  "density_inv v =
     (filter_weights_ok (var_H v) (var_Hs v) \<and> wf_array (var_obstacle_mask v)
      \<and> list_all in_unit (flat (var_x v))
      \<and> (var_c v \<noteq> None \<longrightarrow>
           list_all in_unit (flat (var_xPhys v))
           \<and> zero_on_mask (var_obstacle_mask v) (var_xPhys v)))"

section \<open>A two-element instance\<close>

text \<open>
  A grid of two elements side by side (\<open>nelx = 2\<close>, \<open>nely = nelz = 1\<close>) with helper
  functions small enough to run: one degree of freedom per element, a filter of radius
  \<open>r\<close> that weighs the neighbour by \<open>r / 3\<close>, a solver for the identity system, and an
  update that clips the design to \<open>[0, 1]\<close> and reports no change. The theorems below
  are instantiated on it.
\<close>

definition toy_env :: env where
  "toy_env =
     \<lparr>build_force_vector = (\<lambda>nx ny nz ndof. Inr (replicate (nat ndof) 1)),
      build_supports = (\<lambda>nx ny nz ndof. Inr ([0, 1], [2])),
      lk_H8 = (\<lambda>n. Inr [[1]]),
      build_edof = (\<lambda>nx ny nz. Inr ([[0], [1]], [1, 2], [1, 2])),
      build_filter = (\<lambda>nx ny nz r. Inr ([[r, r / 3], [r / 3, r]], [r + r / 3, r / 3 + r])),
      solver = (\<lambda>K f. Inr f),
      element_compliance = (\<lambda>U edof KE. Inr [1, 1]),
      optimality_criteria_update =
        (\<lambda>x dc dv vf H Hs n m dn. Inr (x\<lparr>flat := map (\<lambda>y. min 1 (max 0 y)) (flat x)\<rparr>, 0))\<rparr>"

definition toy_mask :: "bool ndarray" where
  "toy_mask = \<lparr>shape = (1, 2, 1), flat = [True, False]\<rparr>"


definition toy_args :: args where
  "toy_args =
     \<lparr>nelx = 2, nely = 1, nelz = 1, volfrac = 3 / 10, penal = 3, rmin = 3 / 2,
      disp_thres = 1 / 2, obstacle_mask = Some toy_mask, tolx = 1 / 100, maxloop = 5\<rparr>"

text \<open>The same helpers with an update that always reports the change \<open>1 / 2\<close>, so that
  only the iteration cap stops the loop.\<close>

definition restless_env :: env where
  "restless_env =
     toy_env\<lparr>optimality_criteria_update :=
        (\<lambda>x dc dv vf H Hs n m dn.
           Inr (x\<lparr>flat := map (\<lambda>y. min 1 (max 0 y)) (flat x)\<rparr>, 1 / 2))\<rparr>"

text \<open>
  The filter of three elements in a row with radius \<open>3 / 2\<close>, as section 4.4 of the
  specification builds it (weight \<open>rmin - dist\<close>, row sums), and a field that is 1 on the
  first element only.
\<close>

definition row3_H :: "real list list" where
  "row3_H = [[3 / 2, 1 / 2, 0], [1 / 2, 3 / 2, 1 / 2], [0, 1 / 2, 3 / 2]]"

definition row3_Hs :: "real list" where
  "row3_Hs = [2, 5 / 2, 2]"

definition row3_field :: "real ndarray" where
  "row3_field = \<lparr>shape = (1, 3, 1), flat = [1, 0, 0]\<rparr>"

section \<open>Unfolding the model\<close>

lemmas np_defs = bindE_def np_vstack_T_def make_pairs_def unique_pairs_def assembly_map_def
  nUnique_def np_kron_def bincount_add_def np_bincount_def in_shape_def K_template_init_def
  set_data_def assemble_def np_full_def np_zeros_bool_def np_zeros_def np_reshape_F_def
  set_masked_def select_unmasked_def np_count_nonzero_def np_mean_def arr_map2_def
  np_power_def np_divide_def np_take_def np_put_def sp_matvec_def filter_density_def
  filter_sensitivity_def csr_get_def csr_select_def

lemmas run_defs = bindM_def liftE_def call_def emit_def E0_def Emin_def nu_def dims_def
  top3d_prelude_def top3d_setup_def stiff_vals_def assemble_step_def solve_step_def
  sensitivity_step_def update_step_def top3d_iter_def top3d_finish_def top3d_loop_def top3d_def

lemmas toy_defs = toy_env_def toy_mask_def toy_args_def restless_env_def

lemmas row3_defs = row3_H_def row3_Hs_def row3_field_def

declare top3d_while.simps [simp del]

section \<open>Properties of the assembly\<close>

lemma index_of_less: "y \<in> set xs \<Longrightarrow> index_of xs y < length xs"
  by (induction xs) auto

lemma index_of_nth: "y \<in> set xs \<Longrightarrow> xs ! index_of xs y = y"
  by (induction xs) auto

lemma index_of_eq_iff:
  "distinct xs \<Longrightarrow> y \<in> set xs \<Longrightarrow> s < length xs \<Longrightarrow> index_of xs y = s \<longleftrightarrow> y = xs ! s"
proof (induction xs arbitrary: s)
  case Nil
  then show ?case by simp
next
  case (Cons x xs)
  show ?case
  proof (cases s)
    case 0
    then show ?thesis by auto
  next
    case (Suc t)
    with Cons show ?thesis by (auto simp: nth_eq_iff_index_eq)
  qed
qed

lemma set_unique_pairs: "set (unique_pairs pairs) = set pairs"
  by (simp add: unique_pairs_def)

lemma distinct_unique_pairs: "distinct (unique_pairs pairs)"
  by (simp add: unique_pairs_def)

lemma assembly_map_less: "i \<in> set (assembly_map pairs) \<Longrightarrow> i < nUnique pairs"
  by (auto simp: assembly_map_def nUnique_def set_unique_pairs intro!: index_of_less)

lemma fold_max_bound: "\<forall>i\<in>set idx. i < n \<Longrightarrow> fold max (map Suc idx) n = n"
  by (induction idx arbitrary: n) (auto simp: max_def)

lemma length_fold_bincount: "length (fold bincount_add ivs acc) = length acc"
  by (induction ivs arbitrary: acc) (auto simp: bincount_add_def)

lemma fold_bincount_nth:
  "\<forall>iv\<in>set ivs. fst iv < length acc \<Longrightarrow> s < length acc \<Longrightarrow>
   fold bincount_add ivs acc ! s
     = acc ! s + sum_list (map snd (filter (\<lambda>iv. fst iv = s) ivs))"
proof (induction ivs arbitrary: acc)
  case Nil
  then show ?case by simp
next
  case (Cons iv ivs)
  have len: "length (bincount_add iv acc) = length acc"
    by (simp add: bincount_add_def)
  have step: "bincount_add iv acc ! s = acc ! s + (if fst iv = s then snd iv else 0)"
    using Cons.prems by (simp add: bincount_add_def nth_list_update)
  have "fold bincount_add (iv # ivs) acc ! s = fold bincount_add ivs (bincount_add iv acc) ! s"
    by simp
  also have "\<dots> = bincount_add iv acc ! s + sum_list (map snd (filter (\<lambda>iv. fst iv = s) ivs))"
    using Cons.prems by (intro Cons.IH) (simp_all add: len)
  finally show ?case by (simp add: step)
qed

lemma filter_zip_map_index:
  "distinct us \<Longrightarrow> set ps \<subseteq> set us \<Longrightarrow> s < length us \<Longrightarrow>
   map snd (filter (\<lambda>iv. fst iv = s) (zip (map (index_of us) ps) w))
     = map snd (filter (\<lambda>qv. fst qv = us ! s) (zip ps w))"
proof (induction ps arbitrary: w)
  case Nil
  then show ?case by simp
next
  case (Cons p ps)
  show ?case
  proof (cases w)
    case Nil
    then show ?thesis by simp
  next
    case (Cons v vs)
    have "index_of us p = s \<longleftrightarrow> p = us ! s"
      using Cons.prems by (intro index_of_eq_iff) auto
    moreover have "map snd (filter (\<lambda>iv. fst iv = s) (zip (map (index_of us) ps) vs))
        = map snd (filter (\<lambda>qv. fst qv = us ! s) (zip ps vs))"
      using Cons.prems by (intro Cons.IH) auto
    ultimately show ?thesis using Cons by auto
  qed
qed

lemma bincount_assembly_map:
  assumes "length pairs = length w"
  shows "np_bincount (assembly_map pairs) w (nUnique pairs)
           = Inr (map (sum_duplicates pairs w) (unique_pairs pairs))"
proof -
  let ?us = "unique_pairs pairs"
  let ?n = "nUnique pairs"
  let ?ivs = "zip (assembly_map pairs) w"
  have bound: "\<forall>i\<in>set (assembly_map pairs). i < ?n"
    using assembly_map_less by blast
  have n: "fold max (map Suc (assembly_map pairs)) ?n = ?n"
    using bound by (rule fold_max_bound)
  have ivs: "\<forall>iv\<in>set ?ivs. fst iv < length (replicate ?n (0::real))"
    using bound by (auto dest: set_zip_leftD)
  have "fold bincount_add ?ivs (replicate ?n 0) = map (sum_duplicates pairs w) ?us"
  proof (rule nth_equalityI)
    show "length (fold bincount_add ?ivs (replicate ?n 0)) = length (map (sum_duplicates pairs w) ?us)"
      by (simp add: length_fold_bincount nUnique_def)
  next
    fix s assume "s < length (fold bincount_add ?ivs (replicate ?n 0))"
    then have s: "s < ?n" by (simp add: length_fold_bincount)
    have "fold bincount_add ?ivs (replicate ?n 0) ! s
        = replicate ?n 0 ! s + sum_list (map snd (filter (\<lambda>iv. fst iv = s) ?ivs))"
      using ivs s by (intro fold_bincount_nth) simp_all
    also have "\<dots> = sum_list (map snd (filter (\<lambda>iv. fst iv = s) ?ivs))"
      using s by simp
    also have "map snd (filter (\<lambda>iv. fst iv = s) ?ivs)
        = map snd (filter (\<lambda>qv. fst qv = ?us ! s) (zip pairs w))"
      unfolding assembly_map_def using s
      by (intro filter_zip_map_index) (simp_all add: distinct_unique_pairs set_unique_pairs nUnique_def)
    finally show "fold bincount_add ?ivs (replicate ?n 0) ! s = map (sum_duplicates pairs w) ?us ! s"
      using s by (simp add: sum_duplicates_def nUnique_def)
  qed
  moreover have "length (assembly_map pairs) = length w"
    using assms by (simp add: assembly_map_def)
  ultimately show ?thesis
    unfolding np_bincount_def n by simp
qed

lemma length_np_kron: "length (np_kron a b) = length a * length b"
  by (induction a) (simp_all add: np_kron_def)

lemma list_all_unique_pairs: "list_all P (unique_pairs pairs) = list_all P pairs"
  by (simp add: list_all_iff set_unique_pairs)

text \<open>
  Claim C7. For any index arrays \<open>iK\<close>, \<open>jK\<close> (any grid) and any vector of element
  stiffness scalars, scattering the weighted local values \<open>np.kron(stiff_vals, KE.ravel())\<close>
  through the assembly map computed once (\<open>np.unique\<close> with \<open>return_inverse\<close>, then
  \<open>np.bincount\<close> into the CSR template) gives the same matrix, pattern and values, as a
  build from scratch that sums the contributions of duplicate (row, col) pairs.
\<close>

theorem assembly_map_equals_rebuild:
  assumes pairs: "make_pairs iK jK = Inr pairs"
    and template: "K_template_init pairs ndof = Inr K"
    and len: "length pairs = length sv * length KEflat"
  shows "assemble K (assembly_map pairs) (nUnique pairs) sv KEflat
           = rebuild_from_scratch pairs (np_kron sv KEflat) ndof"
proof -
  let ?w = "np_kron sv KEflat"
  have lw: "length pairs = length ?w"
    using len by (simp add: length_np_kron)
  have ok: "list_all (in_shape (ndof, ndof)) pairs"
    and K: "K = \<lparr>csr_shape = (ndof, ndof), csr_indices = unique_pairs pairs,
                  csr_data = replicate (nUnique pairs) 0\<rparr>"
    using template by (auto simp: K_template_init_def list_all_unique_pairs split: if_splits)
  have "assemble K (assembly_map pairs) (nUnique pairs) sv KEflat
      = set_data K (map (sum_duplicates pairs ?w) (unique_pairs pairs))"
    by (simp add: assemble_def bincount_assembly_map [OF lw] bindE_def)
  also have "\<dots> = Inr \<lparr>csr_shape = (ndof, ndof), csr_indices = unique_pairs pairs,
                        csr_data = map (sum_duplicates pairs ?w) (unique_pairs pairs)\<rparr>"
    by (simp add: set_data_def K nUnique_def)
  also have "\<dots> = rebuild_from_scratch pairs ?w ndof"
    using lw ok by (simp add: rebuild_from_scratch_def unique_pairs_def)
  finally show ?thesis .
qed

theorem assembly_map_equals_rebuild_witness:
  "make_pairs [1, 2, 1] [1, 2, 1] = Inr [(0, 0), (1, 1), (0, 0)]
   \<and> assemble \<lparr>csr_shape = (2, 2), csr_indices = [(0, 0), (1, 1)], csr_data = [0, 0]\<rparr>
        (assembly_map [(0, 0), (1, 1), (0, 0)]) (nUnique [(0, 0), (1, 1), (0, 0)])
        [2] [1, 10, 100]
      = rebuild_from_scratch [(0, 0), (1, 1), (0, 0)] (np_kron [2] [1, 10, 100]) 2
   \<and> rebuild_from_scratch [(0, 0), (1, 1), (0, 0)] (np_kron [2] [1, 10, 100]) 2
      = Inr \<lparr>csr_shape = (2, 2), csr_indices = [(0, 0), (1, 1)], csr_data = [202, 20]\<rparr>"
proof -
  have p: "make_pairs [1, 2, 1] [1, 2, 1] = Inr [(0, 0), (1, 1), (0, 0)]"
    by (simp add: make_pairs_def np_vstack_T_def)
  have t: "K_template_init [(0, 0), (1, 1), (0, 0)] 2
      = Inr \<lparr>csr_shape = (2, 2), csr_indices = [(0, 0), (1, 1)], csr_data = [0, 0]\<rparr>"
    by (simp add: K_template_init_def unique_pairs_def nUnique_def in_shape_def)
  have l: "length [(0, 0), (1, 1), (0::int, 0::int)] = length [2::real] * length [1, 10, 100::real]"
    by simp
  have r: "rebuild_from_scratch [(0, 0), (1, 1), (0, 0)] (np_kron [2] [1, 10, 100]) 2
      = Inr \<lparr>csr_shape = (2, 2), csr_indices = [(0, 0), (1, 1)], csr_data = [202, 20]\<rparr>"
    by (simp add: rebuild_from_scratch_def np_kron_def sum_duplicates_def in_shape_def)
  show ?thesis
    using assembly_map_equals_rebuild [OF p t l] p r by simp
qed

section \<open>The two filter forms\<close>

lemma sum_list_map2_nth:
  assumes "length r = length v"
  shows "sum_list (map2 (\<lambda>h y. f h y) r v) = (\<Sum>j<length v. f (r ! j) (v ! j))"
proof -
  have "sum_list (map2 (\<lambda>h y. f h y) r v)
      = (\<Sum>j = 0..<length (map2 (\<lambda>h y. f h y) r v). map2 (\<lambda>h y. f h y) r v ! j)"
    by (rule sum_list_sum_nth)
  also have "\<dots> = (\<Sum>j<length v. f (r ! j) (v ! j))"
    using assms by (intro sum.cong) (auto simp: atLeast0LessThan)
  finally show ?thesis .
qed

text \<open>
  Claim C3, as stated: every filtered field, the sensitivities included, is
  \<open>(H \<cdot> flatten(v)) / Hs\<close>. On the three-element filter the sensitivity filter of
  lines 180-181 gives \<open>[3/4, 1/4, 0]\<close> where that formula (the density filter of
  lines 129 and 196) gives \<open>[3/4, 1/5, 0]\<close>.
\<close>

theorem sensitivity_filter_differs:
  "filter_sensitivity row3_H row3_Hs row3_field (1, 3, 1)
     \<noteq> filter_density row3_H row3_Hs row3_field (1, 3, 1)"
  by (simp add: row3_defs filter_sensitivity_def filter_density_def sp_matvec_def bindE_def
      np_divide_def np_reshape_F_def)

text \<open>
  Claim C3, amended. The density field is filtered as \<open>(H \<cdot> flatten(x)) / Hs\<close>: apply
  \<open>H\<close>, then divide entry \<open>i\<close> by \<open>Hs[i]\<close>. The sensitivity fields \<open>dc\<close> and \<open>dv\<close> are
  filtered as \<open>H \<cdot> (flatten(v) / Hs)\<close>: divide entry \<open>j\<close> by \<open>Hs[j]\<close>, then apply \<open>H\<close>.
  Both are reshaped back to the grid.
\<close>

theorem filter_forms:
  assumes Hs: "length Hs = length H" and v: "length (flat v) = length H"
    and dens: "filter_density H Hs v d = Inr y"
    and sens: "filter_sensitivity H Hs v d = Inr z"
    and i: "i < length H"
  shows "flat y ! i = (\<Sum>j<length (flat v). H ! i ! j * flat v ! j) / Hs ! i
       \<and> flat z ! i = (\<Sum>j<length (flat v). H ! i ! j * (flat v ! j / Hs ! j))"
proof -
  have rows: "list_all (\<lambda>r. length r = length (flat v)) H"
    using dens by (auto simp: filter_density_def sp_matvec_def bindE_def split: if_splits)
  then have row: "length (H ! i) = length (flat v)"
    using i by (simp add: list_all_length)
  have y: "flat y
      = map2 (\<lambda>a b. a / b) (map (\<lambda>r. sum_list (map2 (\<lambda>h y. h * y) r (flat v))) H) Hs"
    using dens rows Hs
    by (auto simp: filter_density_def sp_matvec_def bindE_def np_divide_def np_reshape_F_def
        split: if_splits prod.splits)
  have z: "flat z
      = map (\<lambda>r. sum_list (map2 (\<lambda>h y. h * y) r (map2 (\<lambda>a b. a / b) (flat v) Hs))) H"
    using sens Hs v
    by (auto simp: filter_sensitivity_def sp_matvec_def bindE_def np_divide_def
        np_reshape_F_def split: if_splits prod.splits)
  have "flat y ! i = sum_list (map2 (\<lambda>h y. h * y) (H ! i) (flat v)) / Hs ! i"
    using i Hs by (simp add: y)
  moreover have "sum_list (map2 (\<lambda>h y. h * y) (H ! i) (flat v))
      = (\<Sum>j<length (flat v). H ! i ! j * flat v ! j)"
    using row by (rule sum_list_map2_nth)
  moreover have "flat z ! i
      = sum_list (map2 (\<lambda>h y. h * y) (H ! i) (map2 (\<lambda>a b. a / b) (flat v) Hs))"
    using i by (simp add: z)
  moreover have "sum_list (map2 (\<lambda>h y. h * y) (H ! i) (map2 (\<lambda>a b. a / b) (flat v) Hs))
      = (\<Sum>j<length (map2 (\<lambda>a b. a / b) (flat v) Hs).
           H ! i ! j * (map2 (\<lambda>a b. a / b) (flat v) Hs ! j))"
    using row Hs v by (intro sum_list_map2_nth) simp
  moreover have "\<dots> = (\<Sum>j<length (flat v). H ! i ! j * (flat v ! j / Hs ! j))"
    using Hs v by (intro sum.cong) auto
  ultimately show ?thesis by simp
qed

theorem filter_forms_witness:
  "filter_density row3_H row3_Hs row3_field (1, 3, 1)
     = Inr \<lparr>shape = (1, 3, 1), flat = [3 / 4, 1 / 5, 0]\<rparr>
   \<and> filter_sensitivity row3_H row3_Hs row3_field (1, 3, 1)
     = Inr \<lparr>shape = (1, 3, 1), flat = [3 / 4, 1 / 4, 0]\<rparr>
   \<and> (1 / 5 :: real)
     = (\<Sum>j<length (flat row3_field). row3_H ! 1 ! j * flat row3_field ! j) / row3_Hs ! 1
   \<and> (1 / 4 :: real)
     = (\<Sum>j<length (flat row3_field). row3_H ! 1 ! j * (flat row3_field ! j / row3_Hs ! j))"
proof -
  have l1: "length row3_Hs = length row3_H" and l2: "length (flat row3_field) = length row3_H"
    and i: "1 < length row3_H"
    by (simp_all add: row3_defs)
  have d: "filter_density row3_H row3_Hs row3_field (1, 3, 1)
      = Inr \<lparr>shape = (1, 3, 1), flat = [3 / 4, 1 / 5, 0]\<rparr>"
    by (simp add: row3_defs filter_density_def sp_matvec_def bindE_def np_divide_def
        np_reshape_F_def)
  have s: "filter_sensitivity row3_H row3_Hs row3_field (1, 3, 1)
      = Inr \<lparr>shape = (1, 3, 1), flat = [3 / 4, 1 / 4, 0]\<rparr>"
    by (simp add: row3_defs filter_sensitivity_def sp_matvec_def bindE_def np_divide_def
        np_reshape_F_def)
  show ?thesis
    using filter_forms [OF l1 l2 d s i] d s by simp
qed

section \<open>Runs of the driver\<close>

lemma bindM_Inr_iff:
  "bindM m f tr = (tr', Inr y) \<longleftrightarrow> (\<exists>tr1 x. m tr = (tr1, Inr x) \<and> f x tr1 = (tr', Inr y))"
  by (auto simp: bindM_def split: prod.splits sum.splits)

lemma liftE_Inr_iff: "liftE r tr = (tr', Inr y) \<longleftrightarrow> r = Inr y \<and> tr' = tr"
  by (auto simp: liftE_def)

lemma call_Inr_iff: "call ev r tr = (tr', Inr y) \<longleftrightarrow> r = Inr y \<and> tr' = tr @ [ev]"
  by (auto simp: call_def)

lemma setup_initial:
  assumes "top3d_setup env a p tr = (tr', Inr v)"
  shows "var_change v = 1 \<and> var_c v = None \<and> var_current_volume_fraction v = None"
  using assms
  by (cases p) (auto simp: top3d_setup_def bindM_Inr_iff liftE_Inr_iff call_Inr_iff)

lemma while_skip:
  "\<not> (var_change v > tolx a \<and> loop < maxloop a)
   \<Longrightarrow> top3d_while env a loop v tr = (tr, Inr (loop, v))"
  by (subst top3d_while.simps) auto

lemma finish_unbound:
  "var_c v = None \<Longrightarrow> snd (top3d_finish a (loop, v) tr) = Inl (UnboundLocalError ''c'')"
  by (simp add: top3d_finish_def bindM_def emit_def liftE_def)

lemma toy_prelude: "top3d_prelude (toy_args\<lparr>tolx := t\<rparr>) = Inr (2, 36, toy_mask, 1)"
  by (simp add: top3d_prelude_def toy_defs np_count_nonzero_def bindE_def)

lemma toy_setup:
  "\<exists>tr v. top3d_setup toy_env (toy_args\<lparr>tolx := t\<rparr>) (2, 36, toy_mask, 1) [] = (tr, Inr v)"
  by (simp add: np_defs run_defs toy_defs eval_nat_numeral)

text \<open>
  Claim C9. When the loop body never runs, that is when \<open>tolx \<ge> 1\<close> (\<open>change\<close> starts at
  1.0) or \<open>maxloop \<le> 0\<close>, \<open>top3d\<close> returns no density array: it ends in an exception,
  and when the setup went through the exception is the unbound local \<open>c\<close> of the final
  log record.
\<close>

theorem no_iteration_unbound_local:
  assumes "1 \<le> tolx a \<or> maxloop a \<le> 0"
  shows "(\<exists>e. snd (top3d env a) = Inl e)
       \<and> (\<forall>p tr v. top3d_prelude a = Inr p \<longrightarrow> top3d_setup env a p [] = (tr, Inr v)
             \<longrightarrow> snd (top3d env a) = Inl (UnboundLocalError ''c''))"
proof -
  have main: "snd (top3d env a) = Inl (UnboundLocalError ''c'')"
    if p: "top3d_prelude a = Inr p" and s: "top3d_setup env a p [] = (tr, Inr v)" for p tr v
  proof -
    have init: "var_change v = 1" "var_c v = None"
      using setup_initial [OF s] by simp_all
    have "\<not> (var_change v > tolx a \<and> 0 < maxloop a)"
      using assms init by auto
    then have w: "top3d_while env a 0 v tr = (tr, Inr (0, v))"
      by (rule while_skip)
    have "top3d env a = top3d_finish a (0, v) tr"
      by (simp add: top3d_def top3d_loop_def bindM_def liftE_def p s w)
    then show ?thesis
      using finish_unbound [OF init(2)] by simp
  qed
  have "\<exists>e. snd (top3d env a) = Inl e"
  proof (cases "top3d_prelude a")
    case (Inl e)
    then show ?thesis by (simp add: top3d_def top3d_loop_def bindM_def liftE_def)
  next
    case (Inr p)
    obtain tr r where s: "top3d_setup env a p [] = (tr, r)"
      by (cases "top3d_setup env a p []")
    show ?thesis
    proof (cases r)
      case (Inl e)
      then show ?thesis
        using Inr s by (simp add: top3d_def top3d_loop_def bindM_def liftE_def)
    next
      case (Inr v)
      then show ?thesis
        using main \<open>top3d_prelude a = Inr p\<close> s by blast
    qed
  qed
  with main show ?thesis by blast
qed

theorem no_iteration_unbound_local_witness:
  "1 \<le> tolx (toy_args\<lparr>tolx := 10\<rparr>)
   \<and> snd (top3d toy_env (toy_args\<lparr>tolx := 10\<rparr>)) = Inl (UnboundLocalError ''c'')"
proof -
  have t: "1 \<le> tolx (toy_args\<lparr>tolx := 10\<rparr>) \<or> maxloop (toy_args\<lparr>tolx := 10\<rparr>) \<le> 0"
    by simp
  obtain tr v
    where s: "top3d_setup toy_env (toy_args\<lparr>tolx := 10\<rparr>) (2, 36, toy_mask, 1) [] = (tr, Inr v)"
    using toy_setup by blast
  show ?thesis
    using no_iteration_unbound_local [OF t, of toy_env] toy_prelude [of 10] s by simp
qed

text \<open>
  Claim C4, as stated: with \<open>tolx = 10\<close> the loop runs exactly one iteration. On the
  two-element instance it runs none.
\<close>

theorem large_tolx_not_one_iteration:
  "iterations toy_env (toy_args\<lparr>tolx := 10\<rparr>) = Some 0
   \<and> iterations toy_env (toy_args\<lparr>tolx := 10\<rparr>) \<noteq> Some 1"
  by (simp add: iterations_def np_defs run_defs toy_defs eval_nat_numeral top3d_while.simps)

text \<open>
  Claim C4, amended. If \<open>tolx\<close> is very large (\<open>tolx \<ge> 1\<close>, for example 10), the loop of
  \<open>top3d\<close> ends after exactly 0 iterations: \<open>change\<close> is initialised to 1.0 and the check
  \<open>change > tolx\<close> fails before the first update, so the loop leaves the locals and the
  record of helper calls as the setup made them.
\<close>

theorem large_tolx_zero_iterations:
  assumes "1 \<le> tolx a"
    and p: "top3d_prelude a = Inr p"
    and s: "top3d_setup env a p [] = (tr, Inr v)"
  shows "top3d_loop env a [] = (tr, Inr (0, v)) \<and> iterations env a = Some 0"
proof -
  have "var_change v = 1"
    using setup_initial [OF s] by simp
  then have "\<not> (var_change v > tolx a \<and> 0 < maxloop a)"
    using assms by simp
  then have "top3d_while env a 0 v tr = (tr, Inr (0, v))"
    by (rule while_skip)
  then have "top3d_loop env a [] = (tr, Inr (0, v))"
    by (simp add: top3d_loop_def bindM_def liftE_def p s)
  then show ?thesis
    by (simp add: iterations_def)
qed

theorem large_tolx_zero_iterations_witness:
  "1 \<le> tolx (toy_args\<lparr>tolx := 10\<rparr>)
   \<and> top3d_prelude (toy_args\<lparr>tolx := 10\<rparr>) = Inr (2, 36, toy_mask, 1)
   \<and> iterations toy_env (toy_args\<lparr>tolx := 10\<rparr>) = Some 0"
proof -
  have t: "1 \<le> tolx (toy_args\<lparr>tolx := 10\<rparr>)"
    by simp
  obtain tr v
    where s: "top3d_setup toy_env (toy_args\<lparr>tolx := 10\<rparr>) (2, 36, toy_mask, 1) [] = (tr, Inr v)"
    using toy_setup by blast
  show ?thesis
    using large_tolx_zero_iterations [OF t toy_prelude [of 10] s] toy_prelude [of 10] by simp
qed

section \<open>The default obstacle mask\<close>

lemma iter_mask_irrelevant:
  "top3d_iter env (a\<lparr>obstacle_mask := X\<rparr>) = top3d_iter env a"
  by (intro ext) (simp add: top3d_iter_def assemble_step_def solve_step_def
      sensitivity_step_def update_step_def stiff_vals_def dims_def)

lemma while_mask_irrelevant:
  "top3d_while env (a\<lparr>obstacle_mask := X\<rparr>) loop v tr = top3d_while env a loop v tr"
proof (induction env a loop v tr rule: top3d_while.induct)
  case (1 env a loop v tr)
  show ?case
    apply (subst top3d_while.simps)
    apply (subst (2) top3d_while.simps)
    using 1 by (auto simp: iter_mask_irrelevant split: prod.splits sum.splits)
qed

text \<open>
  Claim C10. Whenever the all-False mask of shape \<open>(nely, nelx, nelz)\<close> exists, calling
  \<open>top3d\<close> without a mask gives the same result, and the same helper calls and log
  records, as calling it with that mask, for all other arguments and helpers.
\<close>

theorem none_mask_is_all_false:
  assumes "np_zeros_bool (dims a) = Inr m"
  shows "top3d env (a\<lparr>obstacle_mask := None\<rparr>) = top3d env (a\<lparr>obstacle_mask := Some m\<rparr>)"
proof -
  have d: "dims (a\<lparr>obstacle_mask := X\<rparr>) = dims a" for X
    by (simp add: dims_def)
  have p: "top3d_prelude (a\<lparr>obstacle_mask := None\<rparr>)
      = top3d_prelude (a\<lparr>obstacle_mask := Some m\<rparr>)"
    using assms by (simp add: top3d_prelude_def d bindE_def)
  have s: "top3d_setup env (a\<lparr>obstacle_mask := X\<rparr>) = top3d_setup env a" for X
    by (rule ext) (simp add: top3d_setup_def d)
  have f: "top3d_finish (a\<lparr>obstacle_mask := X\<rparr>) = top3d_finish a" for X
    by (rule ext) (simp add: top3d_finish_def cong: if_cong)
  have w: "top3d_while env (a\<lparr>obstacle_mask := X\<rparr>) 0 = top3d_while env a 0" for X
    by (intro ext) (rule while_mask_irrelevant)
  show ?thesis
    by (simp add: top3d_def top3d_loop_def p s f w)
qed

theorem none_mask_is_all_false_witness:
  "np_zeros_bool (dims toy_args) = Inr \<lparr>shape = (1, 2, 1), flat = [False, False]\<rparr>
   \<and> top3d toy_env (toy_args\<lparr>obstacle_mask := None\<rparr>)
     = top3d toy_env (toy_args\<lparr>obstacle_mask := Some \<lparr>shape = (1, 2, 1), flat = [False, False]\<rparr>\<rparr>)"
proof -
  have z: "np_zeros_bool (dims toy_args) = Inr \<lparr>shape = (1, 2, 1), flat = [False, False]\<rparr>"
    by (simp add: np_zeros_bool_def np_full_def dims_def toy_defs eval_nat_numeral)
  show ?thesis
    using none_mask_is_all_false [OF z, of toy_env] z by simp
qed

section \<open>The record of calls\<close>

























section \<open>Leaving the loop\<close>

lemma while_exit:
  "top3d_while env a loop v tr = (tr', Inr (loop', v'))
   \<Longrightarrow> loop \<le> loop' \<and> (loop' \<le> maxloop a \<or> loop' = loop)
       \<and> (var_change v' \<le> tolx a \<or> maxloop a \<le> loop')"
proof (induction env a loop v tr rule: top3d_while.induct)
  case (1 env a loop v tr)
  show ?case
  proof (cases "var_change v > tolx a \<and> loop < maxloop a")
    case False
    then show ?thesis
      using "1.prems" by (auto simp: while_skip)
  next
    case True
    obtain tr1 r where it: "top3d_iter env a v tr = (tr1, r)"
      by (cases "top3d_iter env a v tr")
    show ?thesis
    proof (cases r)
      case (Inl e)
      then show ?thesis
        using True it "1.prems" by (subst (asm) top3d_while.simps) simp
    next
      case (Inr v1)
      have "top3d_while env a (loop + 1) v1 tr1 = (tr', Inr (loop', v'))"
        using True it Inr "1.prems" by (subst (asm) top3d_while.simps) simp
      from "1.IH" [OF True it [symmetric] Inr this] True show ?thesis
        by auto
    qed
  qed
qed

text \<open>
  Claim C6. The loop makes at most \<open>maxloop\<close> passes and is left with \<open>change \<le> tolx\<close>
  or at the cap (\<open>while_exit\<close>); but \<open>top3d\<close> does not return for every valid input.
  With \<open>tolx = 1\<close>, a valid tolerance, the loop is left at once, \<open>converged in 0
  iterations\<close> is logged, and the final log record raises \<open>UnboundLocalError\<close> for \<open>c\<close>.
\<close>

theorem valid_input_raises_unbound_local:
  "valid_input (toy_args\<lparr>tolx := 1\<rparr>)
   \<and> top3d toy_env (toy_args\<lparr>tolx := 1\<rparr>)
     = ([Call_build_force_vector, Call_build_supports, Call_lk_H8, Call_build_edof,
         Call_build_filter, Log_info_converged 0],
        Inl (UnboundLocalError ''c''))"
  by (simp add: valid_input_def wf_array_def np_defs run_defs toy_defs top3d_while.simps
      eval_nat_numeral)

section \<open>The call from \<open>execute_optimization\<close>\<close>

lemma top3d_rejects_history_keywords:
  "bind_arguments top3d_parameters top3d_required 7
     [''obstacle_mask'', ''tolx'', ''maxloop'', ''save_history'', ''history_frequency'',
      ''benchmark_tracker'']
   = Inl (TypeError ''unexpected keyword argument save_history'')"
  by (simp add: bind_arguments_def top3d_parameters_def top3d_required_def)

lemma execute_optimization_never_returns:
  "snd (execute_optimization env ea)
     = Inl (if has_logger ea then TypeError ''unexpected keyword argument save_history''
            else AttributeError)"
  by (simp add: execute_optimization_def call_top3d_def bindM_def
      top3d_rejects_history_keywords)

text \<open>
  Claim C1. The call \<open>top3d(..., save_history=..., history_frequency=...,
  benchmark_tracker=...)\<close> should return a (density, history) pair when
  \<open>create_animation\<close> is true. \<open>top3d\<close> has no such parameters: the call raises
  \<open>TypeError\<close> before \<open>top3d\<close> runs, with or without \<open>create_animation\<close>.
\<close>

theorem history_call_raises_type_error:
  "execute_optimization toy_env
     \<lparr>passed_on = toy_args, create_animation = True, animation_frequency = 10,
      has_logger = True, benchmark = False\<rparr>
   = ([], Inl (TypeError ''unexpected keyword argument save_history''))"
  by (simp add: execute_optimization_def call_top3d_def bindM_def
      top3d_rejects_history_keywords)

section \<open>What an iteration leaves alone\<close>

lemma unchanged_refl: "unchanged_by_iteration v v"
  by (simp add: unchanged_by_iteration_def)

lemma unchanged_trans:
  "unchanged_by_iteration v v1 \<Longrightarrow> unchanged_by_iteration v1 v2
   \<Longrightarrow> unchanged_by_iteration v v2"
  by (simp add: unchanged_by_iteration_def)

lemma assemble_step_frame:
  "assemble_step a v tr = (tr', Inr v') \<Longrightarrow> unchanged_by_iteration v v'"
  by (auto simp: assemble_step_def bindM_Inr_iff liftE_Inr_iff assemble_def bindE_def
      set_data_def unchanged_by_iteration_def split: sum.splits if_splits)

lemma solve_step_frame:
  "solve_step env v tr = (tr', Inr v') \<Longrightarrow> unchanged_by_iteration v v'"
  by (auto simp: solve_step_def bindM_Inr_iff liftE_Inr_iff call_Inr_iff
      unchanged_by_iteration_def)

lemma sensitivity_step_frame:
  "sensitivity_step env a v tr = (tr', Inr r) \<Longrightarrow> unchanged_by_iteration v (fst r)"
  by (auto simp: sensitivity_step_def bindM_Inr_iff liftE_Inr_iff call_Inr_iff
      unchanged_by_iteration_def)

lemma update_step_frame:
  "update_step env a v dc dv tr = (tr', Inr v') \<Longrightarrow> unchanged_by_iteration v v'"
  by (auto simp: update_step_def bindM_Inr_iff liftE_Inr_iff call_Inr_iff
      unchanged_by_iteration_def)

lemma iter_frame:
  assumes "top3d_iter env a v tr = (tr', Inr v')"
  shows "unchanged_by_iteration v v'"
proof -
  from assms obtain t1 v1 t2 v2 t3 r
    where "assemble_step a v tr = (t1, Inr v1)" "solve_step env v1 t1 = (t2, Inr v2)"
      "sensitivity_step env a v2 t2 = (t3, Inr r)"
      "update_step env a (fst r) (fst (snd r)) (snd (snd r)) t3 = (tr', Inr v')"
    by (auto simp: top3d_iter_def bindM_Inr_iff)
  then show ?thesis
    by (blast intro: unchanged_trans assemble_step_frame solve_step_frame
        sensitivity_step_frame update_step_frame)
qed

lemma while_frame:
  "top3d_while env a loop v tr = (tr', Inr (loop', v')) \<Longrightarrow> unchanged_by_iteration v v'"
proof (induction env a loop v tr rule: top3d_while.induct)
  case (1 env a loop v tr)
  show ?case
  proof (cases "var_change v > tolx a \<and> loop < maxloop a")
    case False
    then show ?thesis
      using "1.prems" by (simp add: while_skip unchanged_refl)
  next
    case True
    obtain tr1 r where it: "top3d_iter env a v tr = (tr1, r)"
      by (cases "top3d_iter env a v tr")
    show ?thesis
    proof (cases r)
      case (Inl e)
      then show ?thesis
        using True it "1.prems" by (subst (asm) top3d_while.simps) simp
    next
      case (Inr v1)
      have "top3d_while env a (loop + 1) v1 tr1 = (tr', Inr (loop', v'))"
        using True it Inr "1.prems" by (subst (asm) top3d_while.simps) simp
      from "1.IH" [OF True it [symmetric] Inr this] iter_frame [of env a v tr tr1 v1] it Inr
      show ?thesis
        by (auto intro: unchanged_trans)
    qed
  qed
qed

lemma toy_loop:
  "\<exists>tr v tr' v'.
     top3d_setup toy_env toy_args (2, 36, toy_mask, 1) [] = (tr, Inr v)
     \<and> top3d_while toy_env toy_args 0 v tr = (tr', Inr (1, v'))
     \<and> var_xPhys v' \<noteq> var_xPhys v"
  by (simp add: np_defs run_defs toy_defs top3d_while.simps eval_nat_numeral)

text \<open>
  Claim C8. A pass through the loop body, and so the whole loop from any state, leaves
  the partition of the degrees of freedom (\<open>freedofs0\<close>, \<open>fixeddof0\<close>), the filter \<open>H\<close>
  and \<open>Hs\<close>, the force vector \<open>F\<close>, the element table \<open>edofMat\<close>, the assembly map and
  the sparsity pattern of the global matrix as they were; what changes is among the
  stored matrix values, \<open>x\<close>, \<open>xPhys\<close>, \<open>U\<close> and the scalars of the loop.
\<close>

theorem setup_data_never_mutated:
  "(top3d_iter env a v tr = (tr1, Inr v1) \<longrightarrow> unchanged_by_iteration v v1)
   \<and> (top3d_while env a loop v tr = (tr2, Inr (loop2, v2)) \<longrightarrow> unchanged_by_iteration v v2)"
  using iter_frame while_frame by blast

theorem setup_data_never_mutated_witness:
  "\<exists>tr v tr' v'.
     top3d_setup toy_env toy_args (2, 36, toy_mask, 1) [] = (tr, Inr v)
     \<and> top3d_while toy_env toy_args 0 v tr = (tr', Inr (1, v'))
     \<and> var_xPhys v' \<noteq> var_xPhys v
     \<and> unchanged_by_iteration v v'"
proof -
  from toy_loop obtain tr v tr' v'
    where s: "top3d_setup toy_env toy_args (2, 36, toy_mask, 1) [] = (tr, Inr v)"
      and w: "top3d_while toy_env toy_args 0 v tr = (tr', Inr (1, v'))"
      and x: "var_xPhys v' \<noteq> var_xPhys v"
    by blast
  have "unchanged_by_iteration v v'"
    using setup_data_never_mutated [of toy_env toy_args v tr _ _ 0 tr' 1 v'] w by simp
  with s w x show ?thesis
    by blast
qed

section \<open>The returned density\<close>

lemma weighted_sum_bounds:
  assumes "length r = length v" "list_all (\<lambda>h. 0 \<le> h) r" "list_all in_unit v"
  shows "0 \<le> sum_list (map2 (\<lambda>h y. h * y) r v)
       \<and> sum_list (map2 (\<lambda>h y. h * y) r v) \<le> sum_list r"
  using assms
proof (induction r v rule: list_induct2)
  case Nil
  then show ?case by simp
next
  case (Cons h r y v)
  then have "0 \<le> h * y" "h * y \<le> h"
    by (simp_all add: in_unit_def mult_left_le)
  with Cons show ?case
    by (simp add: in_unit_def)
qed

lemma filter_density_unit:
  assumes ok: "filter_weights_ok H Hs" and x: "list_all in_unit (flat x)"
    and f: "filter_density H Hs x d = Inr y"
  shows "list_all in_unit (flat y) \<and> wf_array y"
proof -
  have rows: "list_all (\<lambda>r. length r = length (flat x)) H"
    using f by (auto simp: filter_density_def sp_matvec_def bindE_def split: if_splits)
  have Hs: "Hs = map sum_list H" and nonneg: "list_all (\<lambda>r. list_all (\<lambda>h. 0 \<le> h) r) H"
    and pos: "list_all (\<lambda>s. 0 < s) Hs"
    using ok by (auto simp: filter_weights_ok_def)
  have y: "flat y
      = map2 (\<lambda>a b. a / b) (map (\<lambda>r. sum_list (map2 (\<lambda>h y. h * y) r (flat x))) H) Hs"
    and wf: "wf_array y"
    using f rows Hs
    by (auto simp: filter_density_def sp_matvec_def bindE_def np_divide_def np_reshape_F_def
        wf_array_def split: if_splits prod.splits)
  have "in_unit (flat y ! i)" if i: "i < length (flat y)" for i
  proof -
    have iH: "i < length H"
      using i by (simp add: y Hs)
    let ?r = "H ! i"
    have r: "length ?r = length (flat x)" "list_all (\<lambda>h. 0 \<le> h) ?r"
      using rows nonneg iH by (simp_all add: list_all_length)
    have s: "0 < sum_list ?r"
      using pos iH by (simp add: Hs list_all_length)
    have val: "flat y ! i = sum_list (map2 (\<lambda>h y. h * y) ?r (flat x)) / sum_list ?r"
      using iH by (simp add: y Hs)
    from weighted_sum_bounds [OF r x] s show ?thesis
      by (simp add: val in_unit_def)
  qed
  then show ?thesis
    using wf by (simp add: list_all_length)
qed

lemma set_masked_unit:
  assumes "list_all in_unit (flat y)" "set_masked y m 0 = Inr r"
  shows "list_all in_unit (flat r)"
proof -
  have r: "flat r = map2 (\<lambda>b y. if b then 0 else y) (flat m) (flat y)"
    using assms(2) by (auto simp: set_masked_def split: if_splits)
  show ?thesis
    using assms(1) by (auto simp: r list_all_length in_unit_def)
qed

lemma set_masked_zero:
  assumes "wf_array y" "wf_array m" "set_masked y m 0 = Inr r"
  shows "zero_on_mask m r"
proof -
  have sh: "shape m = shape y"
    and r: "r = y\<lparr>flat := map2 (\<lambda>b y. if b then 0 else y) (flat m) (flat y)\<rparr>"
    using assms(3) by (auto simp: set_masked_def split: if_splits)
  have len: "length (flat m) = length (flat y)"
    using assms(1,2) sh by (simp add: wf_array_def)
  show ?thesis
    using sh len by (auto simp: zero_on_mask_def r)
qed

lemma early_steps_x:
  assumes "assemble_step a v tr = (t1, Inr v1)" "solve_step env v1 t1 = (t2, Inr v2)"
    "sensitivity_step env a v2 t2 = (t3, Inr r)"
  shows "var_x (fst r) = var_x v \<and> var_H (fst r) = var_H v \<and> var_Hs (fst r) = var_Hs v
       \<and> var_obstacle_mask (fst r) = var_obstacle_mask v"
proof -
  have "var_x v1 = var_x v \<and> var_H v1 = var_H v \<and> var_Hs v1 = var_Hs v
       \<and> var_obstacle_mask v1 = var_obstacle_mask v"
    using assms(1) by (auto simp: assemble_step_def bindM_Inr_iff liftE_Inr_iff)
  moreover have "var_x v2 = var_x v1 \<and> var_H v2 = var_H v1 \<and> var_Hs v2 = var_Hs v1
       \<and> var_obstacle_mask v2 = var_obstacle_mask v1"
    using assms(2) by (auto simp: solve_step_def bindM_Inr_iff liftE_Inr_iff call_Inr_iff)
  moreover have "var_x (fst r) = var_x v2 \<and> var_H (fst r) = var_H v2
       \<and> var_Hs (fst r) = var_Hs v2 \<and> var_obstacle_mask (fst r) = var_obstacle_mask v2"
    using assms(3)
    by (auto simp: sensitivity_step_def bindM_Inr_iff liftE_Inr_iff call_Inr_iff)
  ultimately show ?thesis
    by simp
qed

lemma update_step_inv:
  assumes oc: "oc_update_ok env"
    and H: "filter_weights_ok (var_H v) (var_Hs v)" and m: "wf_array (var_obstacle_mask v)"
    and x: "list_all in_unit (flat (var_x v))"
    and u: "update_step env a v dc dv tr = (tr', Inr v')"
  shows "density_inv v' \<and> list_all in_unit (flat (var_xPhys v'))
       \<and> zero_on_mask (var_obstacle_mask v') (var_xPhys v')"
proof -
  let ?M = "var_obstacle_mask v"
  from u obtain ocr xnew xPhys0 xPhys design
    where o: "optimality_criteria_update env (var_x v) dc dv (volfrac a) (var_H v) (var_Hs v)
                (var_nele v) ?M (var_design_nele v) = Inr ocr"
      and xn: "set_masked (fst ocr) ?M 0 = Inr xnew"
      and f: "filter_density (var_H v) (var_Hs v) xnew (dims a) = Inr xPhys0"
      and xp: "set_masked xPhys0 ?M 0 = Inr xPhys"
      and v': "v' = v\<lparr>var_x := xnew, var_xPhys := xPhys, var_change := snd ocr,
                       var_current_volume_fraction := Some (np_mean design)\<rparr>"
    by (auto simp: update_step_def bindM_Inr_iff liftE_Inr_iff call_Inr_iff)
  have "list_all in_unit (flat (fst ocr))"
    using oc x o unfolding oc_update_ok_def by (cases ocr) (simp, blast)
  then have xnew: "list_all in_unit (flat xnew)"
    using xn by (rule set_masked_unit)
  from filter_density_unit [OF H xnew f]
  have p0: "list_all in_unit (flat xPhys0)" "wf_array xPhys0"
    by simp_all
  have p: "list_all in_unit (flat xPhys)"
    using p0(1) xp by (rule set_masked_unit)
  have z: "zero_on_mask ?M xPhys"
    using p0(2) m xp by (rule set_masked_zero)
  show ?thesis
    using H m xnew p z by (simp add: v' density_inv_def)
qed

lemma iter_inv:
  assumes oc: "oc_update_ok env" and inv: "density_inv v"
    and it: "top3d_iter env a v tr = (tr', Inr v')"
  shows "density_inv v'"
proof -
  from it obtain t1 v1 t2 v2 t3 r
    where s: "assemble_step a v tr = (t1, Inr v1)" "solve_step env v1 t1 = (t2, Inr v2)"
      "sensitivity_step env a v2 t2 = (t3, Inr r)"
      and u: "update_step env a (fst r) (fst (snd r)) (snd (snd r)) t3 = (tr', Inr v')"
    by (auto simp: top3d_iter_def bindM_Inr_iff)
  from early_steps_x [OF s] inv
  have "filter_weights_ok (var_H (fst r)) (var_Hs (fst r))"
    "wf_array (var_obstacle_mask (fst r))" "list_all in_unit (flat (var_x (fst r)))"
    by (simp_all add: density_inv_def)
  from update_step_inv [OF oc this u] show ?thesis
    by simp
qed

lemma while_inv:
  "oc_update_ok env \<Longrightarrow> density_inv v
   \<Longrightarrow> top3d_while env a loop v tr = (tr', Inr (loop', v')) \<Longrightarrow> density_inv v'"
proof (induction env a loop v tr rule: top3d_while.induct)
  case (1 env a loop v tr)
  show ?case
  proof (cases "var_change v > tolx a \<and> loop < maxloop a")
    case False
    then show ?thesis
      using "1.prems" by (simp add: while_skip)
  next
    case True
    obtain tr1 r where it: "top3d_iter env a v tr = (tr1, r)"
      by (cases "top3d_iter env a v tr")
    show ?thesis
    proof (cases r)
      case (Inl e)
      then show ?thesis
        using True it "1.prems"(3) by (subst (asm) top3d_while.simps) simp
    next
      case (Inr v1)
      have w: "top3d_while env a (loop + 1) v1 tr1 = (tr', Inr (loop', v'))"
        using True it Inr "1.prems"(3) by (subst (asm) top3d_while.simps) simp
      have "density_inv v1"
        using iter_inv [OF "1.prems"(1,2)] it Inr by simp
      from "1.IH" [OF True it [symmetric] Inr "1.prems"(1) this w] show ?thesis .
    qed
  qed
qed

lemma np_full_unit:
  assumes "np_full d y = Inr x" "in_unit y"
  shows "list_all in_unit (flat x) \<and> wf_array x"
  using assms
  by (auto simp: np_full_def wf_array_def list_all_length split: prod.splits if_splits)

lemma setup_inv:
  assumes bf: "build_filter_ok env" and r: "0 < rmin a" and vf: "in_unit (volfrac a)"
    and m: "wf_array m"
    and s: "top3d_setup env a (nele, ndof, m, dn) tr = (tr', Inr v)"
  shows "density_inv v \<and> var_obstacle_mask v = m"
proof -
  from s obtain HHs x0 x
    where f: "build_filter env (nelx a) (nely a) (nelz a) (rmin a) = Inr HHs"
      and x0: "np_full (dims a) (volfrac a) = Inr x0"
      and x: "set_masked x0 m 0 = Inr x"
      and v: "var_H v = fst HHs" "var_Hs v = snd HHs" "var_x v = x" "var_c v = None"
        "var_obstacle_mask v = m"
    by (auto simp: top3d_setup_def bindM_Inr_iff liftE_Inr_iff call_Inr_iff)
  have "filter_weights_ok (fst HHs) (snd HHs)"
    using bf r f by (cases HHs) (auto simp: build_filter_ok_def)
  moreover have "list_all in_unit (flat x)"
    using np_full_unit [OF x0 vf] x by (auto intro: set_masked_unit)
  ultimately show ?thesis
    using m by (simp add: density_inv_def v)
qed

lemma finish_Inr:
  assumes "top3d_finish a (loop, v) tr = (tr', Inr r)"
  shows "var_c v \<noteq> None \<and> r = var_xPhys v"
  using assms
  by (auto simp: top3d_finish_def bindM_Inr_iff liftE_Inr_iff split: option.splits)

lemma prelude_mask:
  assumes "top3d_prelude a = Inr (nele, ndof, M, dn)"
  shows "case obstacle_mask a of None \<Rightarrow> np_zeros_bool (dims a) = Inr M | Some m \<Rightarrow> M = m"
  using assms
  by (auto simp: top3d_prelude_def bindE_def Let_def split: option.splits sum.splits if_splits)

lemma toy_filter_ok: "build_filter_ok toy_env"
  by (auto simp: build_filter_ok_def toy_env_def filter_weights_ok_def)

lemma toy_oc_ok: "oc_update_ok toy_env"
  by (auto simp: oc_update_ok_def toy_env_def list_all_iff in_unit_def)

lemma toy_valid: "valid_input toy_args"
  by (simp add: valid_input_def toy_defs wf_array_def)

lemma toy_run:
  "top3d toy_env toy_args
     = ([Call_build_force_vector, Call_build_supports, Call_lk_H8, Call_build_edof,
         Call_build_filter, Call_solver, Call_element_compliance,
         Call_optimality_criteria_update, Log_info_converged 1],
        Inr \<lparr>shape = (1, 2, 1), flat = [0, 9 / 40]\<rparr>)"
  by (simp add: np_defs run_defs toy_defs top3d_while.simps eval_nat_numeral)

text \<open>
  Claim C2. For a valid input, with filter weights and a design update as the
  specification describes them, the array that \<open>top3d\<close> returns has the shape of the
  grid, every entry in \<open>[0, 1]\<close>, and the entry 0 at every cell where the obstacle mask is
  true.
\<close>

theorem returned_density_range:
  assumes valid: "valid_input a" and bf: "build_filter_ok env" and oc: "oc_update_ok env"
    and ret: "top3d env a = (tr, Inr r)"
  shows "list_all in_unit (flat r)
       \<and> shape r = (nat (nely a), nat (nelx a), nat (nelz a))
       \<and> (\<forall>m. obstacle_mask a = Some m \<longrightarrow>
             length (flat r) = length (flat m)
             \<and> (\<forall>i<length (flat m). flat m ! i \<longrightarrow> flat r ! i = 0))"
proof -
  from ret obtain tr1 lv where lp: "top3d_loop env a [] = (tr1, Inr lv)"
    and fin: "top3d_finish a lv tr1 = (tr, Inr r)"
    by (auto simp: top3d_def bindM_Inr_iff)
  obtain loop v where lv: "lv = (loop, v)"
    by (cases lv)
  from lp obtain p tr0 v0 where p: "top3d_prelude a = Inr p"
    and s: "top3d_setup env a p [] = (tr0, Inr v0)"
    and w: "top3d_while env a 0 v0 tr0 = (tr1, Inr (loop, v))"
    by (auto simp: top3d_loop_def bindM_Inr_iff liftE_Inr_iff lv)
  obtain nele ndof M dn where pp: "p = (nele, ndof, M, dn)"
    by (cases p) auto
  have M: "wf_array M \<and> shape M = (nat (nely a), nat (nelx a), nat (nelz a))
      \<and> (\<forall>m. obstacle_mask a = Some m \<longrightarrow> M = m)"
    using prelude_mask [OF p [unfolded pp]] valid
    by (auto simp: valid_input_def np_zeros_bool_def np_full_def dims_def wf_array_def
        split: option.splits if_splits)
  have vf: "in_unit (volfrac a)" and r: "0 < rmin a"
    using valid by (simp_all add: valid_input_def in_unit_def)
  from setup_inv [OF bf r vf _ s [unfolded pp]] M
  have inv0: "density_inv v0" and m0: "var_obstacle_mask v0 = M"
    by simp_all
  have inv: "density_inv v"
    using while_inv [OF oc inv0 w] .
  have mv: "var_obstacle_mask v = M"
    using while_frame [OF w] m0 by (simp add: unchanged_by_iteration_def)
  from finish_Inr [OF fin [unfolded lv]] have c: "var_c v \<noteq> None" and rv: "r = var_xPhys v"
    by simp_all
  from inv c have "list_all in_unit (flat r)" "zero_on_mask M r"
    by (simp_all add: density_inv_def rv mv)
  then show ?thesis
    using M by (auto simp: zero_on_mask_def)
qed

theorem returned_density_range_witness:
  "valid_input toy_args \<and> build_filter_ok toy_env \<and> oc_update_ok toy_env
   \<and> snd (top3d toy_env toy_args) = Inr \<lparr>shape = (1, 2, 1), flat = [0, 9 / 40]\<rparr>
   \<and> list_all in_unit [0, 9 / 40]
   \<and> flat toy_mask ! 0 \<and> [0, 9 / 40 :: real] ! 0 = 0"
  using returned_density_range [OF toy_valid toy_filter_ok toy_oc_ok toy_run]
    toy_valid toy_filter_ok toy_oc_ok toy_run
  by (simp add: toy_defs)

end
